theory Spec2Isabelle
  imports Complex_Main "HOL-Library.Sublist"
begin

section \<open>Python values used by app.py\<close>

text \<open>
  A Python \<open>str\<close> is modelled by its UTF-8 encoding, a \<open>string\<close> of bytes. Equality,
  emptiness (the truth value of a \<open>str\<close>), concatenation and the removal of ASCII
  characters are the same on code points and on their encoding. \<open>len\<close> counts code
  points: the bytes that are not continuation bytes (\<open>0x80\<close> to \<open>0xBF\<close>).
\<close>

definition py_len :: "string \<Rightarrow> nat" where
  "py_len s = length (filter (\<lambda>c. \<not> (128 \<le> (of_char c :: nat) \<and> (of_char c :: nat) < 192)) s)"

text \<open>
  A Python \<open>float\<close> that is finite is modelled by its exact value, a rational number.
  The product \<open>confidence*100\<close> is an IEEE-754 multiplication. In the script it is the
  parameter \<open>fmul\<close> of the environment below, so that the theorems about the script hold for
  every multiplication; \<open>float_mul\<close> is the binary64 product, the exact product rounded to
  the nearest double, a tie going to the even significand. Results beyond the finite range of
  the doubles (infinities) and not-a-number values are outside the model.
\<close>

type_synonym pyfloat = rat

definition round_half_even :: "rat \<Rightarrow> int" where
  "round_half_even x =
     (let f = \<lfloor>x\<rfloor>; d = x - of_int f
      in if d < 1 / 2 then f else if 1 / 2 < d then f + 1 else if even f then f else f + 1)"

definition pow2 :: "int \<Rightarrow> rat" where
  "pow2 e = (if 0 \<le> e then 2 ^ nat e else 1 / 2 ^ nat (- e))"

function bit_length :: "nat \<Rightarrow> nat" where
  "bit_length n = (if n = 0 then 0 else Suc (bit_length (n div 2)))"
  by pat_completeness auto
termination
  by (relation "measure (\<lambda>n. n)") auto

declare bit_length.simps [simp del]

text \<open>The exponent \<open>e\<close> of a positive rational \<open>x\<close>: \<open>2 ^ e \<le> x < 2 ^ (e + 1)\<close>.\<close>

definition binary_exponent :: "rat \<Rightarrow> int" where
  "binary_exponent x =
     (let (a, b) = quotient_of x;
          k = int (bit_length (nat a)) - int (bit_length (nat b))
      in if pow2 k \<le> x then k else k - 1)"

text \<open>
  Rounding to binary64: 53 significant bits, the least exponent \<open>-1022\<close> (below it the
  spacing of the subnormal numbers), to the nearest, ties to even.
\<close>

definition round_double :: "rat \<Rightarrow> rat" where
  "round_double x =
     (if x = 0 then 0
      else let q = max (binary_exponent \<bar>x\<bar>) (- 1022) - 52
           in sgn x * of_int (round_half_even (\<bar>x\<bar> / pow2 q)) * pow2 q)"

definition float_mul :: "pyfloat \<Rightarrow> pyfloat \<Rightarrow> pyfloat" where
  "float_mul a b = round_double (a * b)"

definition digit_char :: "nat \<Rightarrow> char" where
  "digit_char d = ''0123456789'' ! d"

function show_nat :: "nat \<Rightarrow> string" where
  "show_nat n = (if n < 10 then [digit_char n] else show_nat (n div 10) @ [digit_char (n mod 10)])"
  by pat_completeness auto
termination
  by (relation "measure (\<lambda>n. n)") auto

declare show_nat.simps [simp del]

text \<open>
  The format specification \<open>.1f\<close>: the decimal numeral with one digit after the point that
  is nearest to the exact value of the float, a tie going to the even last digit, with a minus
  sign for a negative value.
\<close>

definition fmt_1f :: "pyfloat \<Rightarrow> string" where
  "fmt_1f x =
     (let n = nat (round_half_even (\<bar>x\<bar> * 10))
      in (if x < 0 then ''-'' else '''') @ show_nat (n div 10) @ ''.'' @ [digit_char (n mod 10)])"

text \<open>\<open>dict.get(key, default)\<close> on an optional entry.\<close>

definition dict_get :: "'a option \<Rightarrow> 'a \<Rightarrow> 'a" where
  "dict_get entry dflt = (case entry of None \<Rightarrow> dflt | Some v \<Rightarrow> v)"

text \<open>
  \<open>urllib.parse.quote\<close> with its default \<open>safe='/'\<close>: the unreserved ASCII characters and
  the slash stay, every other byte of the UTF-8 encoding becomes \<open>%XX\<close> in upper-case
  hexadecimal.
\<close>

definition quote_safe :: "char \<Rightarrow> bool" where
  "quote_safe c \<longleftrightarrow>
     c \<in> set ''ABCDEFGHIJKLMNOPQRSTUVWXYZabcdefghijklmnopqrstuvwxyz0123456789_.-~/''"

definition hex_digit :: "nat \<Rightarrow> char" where
  "hex_digit d = ''0123456789ABCDEF'' ! d"

definition quote :: "string \<Rightarrow> string" where
  "quote s =
     concat (map (\<lambda>c. if quote_safe c then [c]
                       else [CHR ''%'', hex_digit ((of_char c :: nat) div 16),
                             hex_digit ((of_char c :: nat) mod 16)]) s)"

text \<open>\<open>str.replace(old, '')\<close> for a single ASCII character \<open>old\<close>.\<close>

definition remove_char :: "char \<Rightarrow> string \<Rightarrow> string" where
  "remove_char c s = filter (\<lambda>d. d \<noteq> c) s"

section \<open>Data model\<close>

text \<open>
  The dictionary returned by \<open>get_fault_info\<close>: app.py reads six keys, each of which may be
  absent (\<open>fault_info.get\<close>, \<open>"symptoms" in fault_info\<close>).
\<close>

record fault_info =
  severity :: "string option"
  description :: "string option"
  symptoms :: "string list option"
  repair_steps :: "string list option"
  prevention :: "string list option"
  cost_estimate :: "string option"

text \<open>The office dictionary returned by \<open>find_nearest_office\<close>, with the keys app.py reads.\<close>

record office =
  office_name :: string
  email :: string
  phone :: string
  address :: string
  working_hours :: string

text \<open>The dictionary returned by \<open>predict\<close>; \<open>probabilities\<close> keeps the insertion order.\<close>

record prediction =
  fault_type :: string
  confidence :: pyfloat
  probabilities :: "(string \<times> pyfloat) list"

text \<open>The \<open>report\<close> dictionary built in lines 194 to 216.\<close>

record user_details =
  ud_name :: string
  ud_phone :: string
  ud_email :: string
  ud_pincode :: string
  ud_panel_location :: string

record fault_detection =
  fd_fault_type :: string
  fd_confidence :: string
  fd_severity :: string
  fd_description :: string

record office_details =
  od_office_name :: string
  od_email :: string
  od_phone :: string
  od_address :: string

record report =
  timestamp :: string
  r_user_details :: user_details
  r_fault_detection :: fault_detection
  r_office_details :: office_details
  r_additional_notes :: string

text \<open>
  \<open>st.session_state\<close>: app.py reads and writes the two keys \<open>'fault_report'\<close> and
  \<open>'report_text'\<close> only; \<open>None\<close> is an absent key.
\<close>

record session =
  fault_report :: "report option"
  report_text :: "string option"

definition empty_session :: session where
  "empty_session = \<lparr>fault_report = None, report_text = None\<rparr>"

text \<open>
  The functions app.py imports from modules that are not part of the sources at hand are
  parameters: \<open>predict\<close> (with the loaded model), \<open>get_fault_info\<close>,
  \<open>find_nearest_office\<close> and \<open>format_contact_info\<close>; \<open>fmul\<close> is the multiplication of
  floats. \<open>find_nearest_office\<close> returns \<open>None\<close> where the Python returns a false value.
\<close>

record 'i env =
  predict :: "'i \<Rightarrow> prediction"
  get_fault_info :: "string \<Rightarrow> fault_info"
  find_nearest_office :: "string \<Rightarrow> office option"
  format_contact_info :: "office \<Rightarrow> string"
  fmul :: "pyfloat \<Rightarrow> pyfloat \<Rightarrow> pyfloat"

text \<open>
  What one run of the script reads from the browser and from the clock: the uploaded and
  decoded image (\<open>None\<close> when nothing is uploaded), the values of the input widgets, and the
  two readings of \<open>datetime.now()\<close>, already formatted (\<open>now_file\<close> at line 55 with
  \<open>%Y%m%d_%H%M%S\<close>, \<open>now_report\<close> at line 195 with \<open>%Y-%m-%d %H:%M:%S\<close>).
\<close>

record 'i inputs =
  uploaded_image :: "'i option"
  user_pincode :: string
  find_office_btn :: bool
  user_name :: string
  user_phone :: string
  user_email :: string
  panel_location :: string
  additional_notes :: string
  submitted :: bool
  now_file :: string
  now_report :: string

text \<open>
  What a run shows: the Streamlit elements in the order of the calls. The children of an
  expander or of a form follow the element that opens it.
\<close>

datatype widget =
    Title string
  | Markdown string
  | Header string
  | Success string
  | Error string
  | Warning string
  | Info string
  | Write string
  | FileUploader string
  | Image string
  | Expander string
  | Progress pyfloat string
  | TextInput string
  | TextArea string
  | Button string
  | Form string
  | FormSubmitButton string
  | Json report
  | Code string
  | DownloadButton string string string string

section \<open>The script app.py\<close>

subsection \<open>Pictographs of the literals, in UTF-8\<close>

definition sym_sun :: string where "sym_sun = [CHR 0xF0, CHR 0x9F, CHR 0x94, CHR 0x86]"
definition sym_info :: string where "sym_info = [CHR 0xE2, CHR 0x84, CHR 0xB9, CHR 0xEF, CHR 0xB8, CHR 0x8F]"
definition sym_pin :: string where "sym_pin = [CHR 0xF0, CHR 0x9F, CHR 0x93, CHR 0x8D]"
definition sym_inbox :: string where "sym_inbox = [CHR 0xF0, CHR 0x9F, CHR 0x93, CHR 0xA5]"
definition sym_tube :: string where "sym_tube = [CHR 0xF0, CHR 0x9F, CHR 0xA7, CHR 0xAA]"
definition sym_clipboard :: string where "sym_clipboard = [CHR 0xF0, CHR 0x9F, CHR 0x93, CHR 0x8B]"
definition sym_glass :: string where "sym_glass = [CHR 0xF0, CHR 0x9F, CHR 0x94, CHR 0x8D]"
definition sym_wrench :: string where "sym_wrench = [CHR 0xF0, CHR 0x9F, CHR 0x94, CHR 0xA7]"
definition sym_shield :: string where
  "sym_shield = [CHR 0xF0, CHR 0x9F, CHR 0x9B, CHR 0xA1, CHR 0xEF, CHR 0xB8, CHR 0x8F]"
definition sym_money :: string where "sym_money = [CHR 0xF0, CHR 0x9F, CHR 0x92, CHR 0xB0]"
definition sym_chart :: string where "sym_chart = [CHR 0xF0, CHR 0x9F, CHR 0x93, CHR 0x8A]"
definition sym_building :: string where "sym_building = [CHR 0xF0, CHR 0x9F, CHR 0x8F, CHR 0xA2]"
definition sym_mail :: string where "sym_mail = [CHR 0xF0, CHR 0x9F, CHR 0x93, CHR 0xA7]"
definition sym_outbox :: string where "sym_outbox = [CHR 0xF0, CHR 0x9F, CHR 0x93, CHR 0xA4]"
definition sym_check :: string where "sym_check = [CHR 0xE2, CHR 0x9C, CHR 0x85]"
definition sym_page :: string where "sym_page = [CHR 0xF0, CHR 0x9F, CHR 0x93, CHR 0x84]"
definition sym_call :: string where "sym_call = [CHR 0xF0, CHR 0x9F, CHR 0x93, CHR 0x9E]"
definition sym_up :: string where "sym_up = [CHR 0xF0, CHR 0x9F, CHR 0x91, CHR 0x86]"

subsection \<open>Formatted values\<close>

text \<open>\<open>f"{confidence*100:.1f}%"\<close>, the form in which every probability is shown.\<close>

definition percent :: "'i env \<Rightarrow> pyfloat \<Rightarrow> string" where
  "percent env c = fmt_1f (fmul env c 100) @ ''%''"

text \<open>The message of the result banner, lines 87 to 93.\<close>

definition result_message :: "'i env \<Rightarrow> string \<Rightarrow> pyfloat \<Rightarrow> string" where
  "result_message env ft c = ''**'' @ ft @ ''** (Confidence: '' @ percent env c @ '')''"

text \<open>Lines 86 to 93: the kind of banner is chosen from the label and the severity.\<close>

definition result_banner :: "'i env \<Rightarrow> string \<Rightarrow> pyfloat \<Rightarrow> fault_info \<Rightarrow> widget" where
  "result_banner env ft c fi =
     (if ft = ''Healthy Panel'' then Success (result_message env ft c)
      else if severity fi = Some ''High'' then Error (result_message env ft c)
      else if severity fi = Some ''Medium'' then Warning (result_message env ft c)
      else Info (result_message env ft c))"

text \<open>Lines 114 and 115: \<open>enumerate(..., 1)\<close> over the repair steps.\<close>

fun repair_lines :: "nat \<Rightarrow> string list \<Rightarrow> widget list" where
  "repair_lines i [] = []"
| "repair_lines i (step # steps) = Markdown (show_nat i @ ''. '' @ step) # repair_lines (Suc i) steps"

text \<open>
  Lines 131 to 137: \<open>sorted\<close> with \<open>reverse=True\<close> is a stable sort by descending
  probability, then one progress bar for each label.
\<close>

definition sorted_probs :: "(string \<times> pyfloat) list \<Rightarrow> (string \<times> pyfloat) list" where
  "sorted_probs ps = sort_key (\<lambda>x. - snd x) ps"

definition probability_bars :: "'i env \<Rightarrow> (string \<times> pyfloat) list \<Rightarrow> widget list" where
  "probability_bars env ps =
     map (\<lambda>(fault_name, prob). Progress prob (fault_name @ '': '' @ percent env prob)) (sorted_probs ps)"

subsection \<open>Report assembly, lines 194 to 249\<close>

definition make_report ::
  "'i env \<Rightarrow> 'i inputs \<Rightarrow> string \<Rightarrow> pyfloat \<Rightarrow> fault_info \<Rightarrow> office \<Rightarrow> report" where
  "make_report env inp ft c fi off =
     \<lparr>timestamp = now_report inp,
      r_user_details =
        \<lparr>ud_name = user_name inp, ud_phone = user_phone inp, ud_email = user_email inp,
         ud_pincode = user_pincode inp, ud_panel_location = panel_location inp\<rparr>,
      r_fault_detection =
        \<lparr>fd_fault_type = ft, fd_confidence = percent env c,
         fd_severity = dict_get (severity fi) ''Unknown'',
         fd_description = dict_get (description fi) []\<rparr>,
      r_office_details =
        \<lparr>od_office_name = office_name off, od_email = email off, od_phone = phone off,
         od_address = address off\<rparr>,
      r_additional_notes = additional_notes inp\<rparr>"

text \<open>Lines 226 to 249: the text of the report, line by line.\<close>

definition make_report_text ::
  "'i env \<Rightarrow> 'i inputs \<Rightarrow> string \<Rightarrow> pyfloat \<Rightarrow> fault_info \<Rightarrow> office \<Rightarrow> string" where
  "make_report_text env inp ft c fi off =
     ''FAULT DETECTION REPORT\<newline>''
     @ ''======================\<newline>''
     @ ''\<newline>''
     @ ''Date: '' @ now_report inp @ ''\<newline>''
     @ ''User: '' @ user_name inp @ ''\<newline>''
     @ ''Phone: '' @ user_phone inp @ ''\<newline>''
     @ ''Email: '' @ user_email inp @ ''\<newline>''
     @ ''Pincode: '' @ user_pincode inp @ ''\<newline>''
     @ ''Location: '' @ panel_location inp @ ''\<newline>''
     @ ''\<newline>''
     @ ''FAULT DETECTED:\<newline>''
     @ ''- Type: '' @ ft @ ''\<newline>''
     @ ''- Confidence: '' @ percent env c @ ''\<newline>''
     @ ''- Severity: '' @ dict_get (severity fi) ''Unknown'' @ ''\<newline>''
     @ ''- Description: '' @ dict_get (description fi) [] @ ''\<newline>''
     @ ''\<newline>''
     @ ''SERVICE OFFICE:\<newline>''
     @ ''- Name: '' @ office_name off @ ''\<newline>''
     @ ''- Address: '' @ address off @ ''\<newline>''
     @ ''- Phone: '' @ phone off @ ''\<newline>''
     @ ''- Email: '' @ email off @ ''\<newline>''
     @ ''\<newline>''
     @ ''Additional Notes: '' @ additional_notes inp @ ''\<newline>''"

text \<open>Lines 257 to 279: the mail link with its quoted subject and body.\<close>

definition email_body ::
  "'i env \<Rightarrow> 'i inputs \<Rightarrow> string \<Rightarrow> pyfloat \<Rightarrow> fault_info \<Rightarrow> office \<Rightarrow> string" where
  "email_body env inp ft c fi off =
     ''Dear '' @ office_name off
     @ '',\<newline>\<newline>I am reporting a solar panel fault detected through the fault detection system.''
     @ ''\<newline>\<newline>FAULT DETAILS:\<newline>- Type: '' @ ft
     @ ''\<newline>- Confidence: '' @ percent env c
     @ ''\<newline>- Severity: '' @ dict_get (severity fi) ''Unknown''
     @ ''\<newline>\<newline>MY DETAILS:\<newline>- Name: '' @ user_name inp
     @ ''\<newline>- Phone: '' @ user_phone inp
     @ ''\<newline>- Email: '' @ user_email inp
     @ ''\<newline>- Pincode: '' @ user_pincode inp
     @ ''\<newline>- Panel Location: '' @ panel_location inp
     @ ''\<newline>\<newline>Additional Notes: '' @ additional_notes inp
     @ ''\<newline>\<newline>Please contact me to schedule a service visit.\<newline>\<newline>Thank you.''"

definition email_link ::
  "'i env \<Rightarrow> 'i inputs \<Rightarrow> string \<Rightarrow> pyfloat \<Rightarrow> fault_info \<Rightarrow> office \<Rightarrow> string" where
  "email_link env inp ft c fi off =
     ''mailto:'' @ email off @ ''?subject='' @ quote (''Fault Report - '' @ ft)
     @ ''&body='' @ quote (email_body env inp ft c fi off)"

text \<open>Line 284.\<close>

definition phone_clean :: "office \<Rightarrow> string" where
  "phone_clean off = remove_char CHR '' '' (remove_char CHR ''+'' (remove_char CHR ''-'' (phone off)))"


subsection \<open>The report form, lines 167 to 301\<close>

text \<open>Line 192: the three required fields are non-empty strings.\<close>

definition required_fields :: "'i inputs \<Rightarrow> bool" where
  "required_fields inp \<longleftrightarrow> user_name inp \<noteq> [] \<and> user_phone inp \<noteq> [] \<and> user_email inp \<noteq> []"

text \<open>Lines 219 to 295: what is shown once the report is built.\<close>

definition report_widgets ::
  "'i env \<Rightarrow> 'i inputs \<Rightarrow> string \<Rightarrow> pyfloat \<Rightarrow> fault_info \<Rightarrow> office \<Rightarrow> widget list" where
  "report_widgets env inp ft c fi off =
     [Success (sym_check @ '' Report Generated Successfully!''),
      Expander (sym_page @ '' View Generated Report''),
      Json (make_report env inp ft c fi off),
      Markdown (''### '' @ sym_call @ '' Contact Office''),
      Markdown (''**'' @ sym_mail @ '' Email Office**''),
      Markdown (''['' @ sym_mail @ '' '' @ email off @ '']('' @ email_link env inp ft c fi off @ '')''),
      Markdown (''**'' @ sym_call @ '' Call Office**''),
      Markdown (''['' @ sym_call @ '' '' @ phone off @ ''](tel:'' @ phone_clean off @ '')''),
      Markdown (''**'' @ sym_clipboard @ '' Office Address**''),
      Markdown (address off),
      Markdown (''**Working Hours:** '' @ working_hours off),
      Markdown ''---'',
      Markdown (''### '' @ sym_page @ '' Report Summary''),
      Code (make_report_text env inp ft c fi off)]"

text \<open>
  Lines 191 to 301: nothing when the form was not submitted; the report, shown and stored
  in the session, when the required fields are filled in; the error message otherwise.
\<close>

definition form_submission ::
  "'i env \<Rightarrow> 'i inputs \<Rightarrow> string \<Rightarrow> pyfloat \<Rightarrow> fault_info \<Rightarrow> office \<Rightarrow> session
     \<Rightarrow> widget list \<times> session" where
  "form_submission env inp ft c fi off s =
     (if submitted inp then
        (if required_fields inp then
           (report_widgets env inp ft c fi off,
            s\<lparr>fault_report := Some (make_report env inp ft c fi off),
              report_text := Some (make_report_text env inp ft c fi off)\<rparr>)
         else ([Error ''Please fill in all required fields (marked with *)''], s))
      else ([], s))"

text \<open>Lines 172 to 189: the form and its input elements.\<close>

definition form_fields :: "widget list" where
  "form_fields =
     [Form ''fault_report_form'',
      Markdown ''**Fill in your details to send the fault report:**'',
      TextInput ''Your Name *'',
      TextInput ''Phone Number *'',
      TextInput ''Email Address *'',
      TextInput ''Panel Location'',
      TextArea ''Additional Notes (Optional)'',
      FormSubmitButton (sym_outbox @ '' Send Report to Office'')]"

text \<open>Lines 167 to 301.\<close>

definition report_form ::
  "'i env \<Rightarrow> 'i inputs \<Rightarrow> string \<Rightarrow> pyfloat \<Rightarrow> fault_info \<Rightarrow> office \<Rightarrow> session
     \<Rightarrow> widget list \<times> session" where
  "report_form env inp ft c fi off s =
     (if ft \<noteq> ''Healthy Panel'' then
        (let (ws, s') = form_submission env inp ft c fi off s
         in ([Markdown ''---'', Markdown (''### '' @ sym_mail @ '' Send Fault Report to Office'')]
             @ form_fields @ ws, s'))
      else ([], s))"

subsection \<open>The office section, lines 155 to 305\<close>

text \<open>Line 155: the button, or a pincode of at least four characters.\<close>

definition lookup_requested :: "'i inputs \<Rightarrow> bool" where
  "lookup_requested inp \<longleftrightarrow>
     find_office_btn inp \<or> (user_pincode inp \<noteq> [] \<and> 4 \<le> py_len (user_pincode inp))"

definition office_section ::
  "'i env \<Rightarrow> 'i inputs \<Rightarrow> string \<Rightarrow> pyfloat \<Rightarrow> fault_info \<Rightarrow> session \<Rightarrow> widget list \<times> session" where
  "office_section env inp ft c fi s =
     (if lookup_requested inp then
        (if user_pincode inp \<noteq> [] then
           (case find_nearest_office env (user_pincode inp) of
              Some off \<Rightarrow>
                (let (ws, s') = report_form env inp ft c fi off s
                 in ([Markdown ''---'',
                      Markdown (''### '' @ sym_building @ '' Nearest Service Office''),
                      Markdown (format_contact_info env off)] @ ws, s'))
            | None \<Rightarrow>
                ([Warning ''No service office found for this pincode. Please contact our main office.''], s))
         else ([Info ''Please enter a pincode to find the nearest service office.''], s))
      else ([], s))"

subsection \<open>The result column, lines 73 to 307\<close>

text \<open>Lines 83 to 137: the detection result and the knowledge-base texts.\<close>

definition result_widgets :: "'i env \<Rightarrow> prediction \<Rightarrow> fault_info \<Rightarrow> widget list" where
  "result_widgets env result fi =
     [Markdown (''### '' @ sym_tube @ '' Detection Result''),
      result_banner env (fault_type result) (confidence result) fi,
      Markdown ''---'',
      Markdown (''### '' @ sym_clipboard @ '' Fault Description''),
      Write (dict_get (description fi) ''No description available.'')]
     @ (if fault_type result \<noteq> ''Healthy Panel''
        then [Markdown (''**Severity:** '' @ dict_get (severity fi) ''Unknown'')] else [])
     @ (case symptoms fi of
          Some ss \<Rightarrow> Markdown (''### '' @ sym_glass @ '' Symptoms'') # map (\<lambda>symptom. Markdown (''- '' @ symptom)) ss
        | None \<Rightarrow> [])
     @ [Markdown ''---'',
        Markdown (''### '' @ sym_wrench @ '' Repair Instructions''),
        Markdown ''**Step-by-step repair process:**'']
     @ repair_lines 1 (dict_get (repair_steps fi) [])
     @ [Markdown ''---'',
        Markdown (''### '' @ sym_shield @ '' Prevention Tips'')]
     @ map (\<lambda>tip. Markdown (''- '' @ tip)) (dict_get (prevention fi) [])
     @ (case cost_estimate fi of
          Some cost \<Rightarrow> [Markdown ''---'',
                        Markdown (''### '' @ sym_money @ '' Estimated Repair Cost: **'' @ cost @ ''**'')]
        | None \<Rightarrow> [])
     @ [Expander (sym_chart @ '' View All Predictions''),
        Markdown ''**Prediction probabilities:**'']
     @ probability_bars env (probabilities result)"

text \<open>Lines 140 to 153: the pincode field and the button.\<close>

definition pincode_widgets :: "widget list" where
  "pincode_widgets =
     [Markdown ''---'',
      Markdown (''### '' @ sym_pin @ '' Find Nearest Service Office''),
      TextInput ''Enter your Pincode/Zip Code'',
      Markdown ''<br>'',
      Button (sym_glass @ '' Find Office'')]"

definition result_column :: "'i env \<Rightarrow> 'i inputs \<Rightarrow> session \<Rightarrow> widget list \<times> session" where
  "result_column env inp s =
     (case uploaded_image inp of
        Some img \<Rightarrow>
          (let result = predict env img;
               fi = get_fault_info env (fault_type result);
               (ws, s') = office_section env inp (fault_type result) (confidence result) fi s
           in (result_widgets env result fi @ pincode_widgets @ ws, s'))
      | None \<Rightarrow> ([Info (sym_up @ '' Please upload an EL image to begin analysis.'')], s))"

subsection \<open>Page head, sidebar and upload column, lines 16 to 71\<close>

definition page_head :: "widget list" where
  "page_head =
     [Title (sym_sun @ '' Solar Panel Fault Detection System''),
      Markdown ''Upload an EL (Electroluminescence) image of a solar panel to detect faults and get repair instructions.'']"

text \<open>Lines 50 to 57: the download button, present when the session holds a report.\<close>

definition download_widgets :: "'i inputs \<Rightarrow> session \<Rightarrow> widget list" where
  "download_widgets inp s =
     (if fault_report s \<noteq> None then
        [Markdown ''---'',
         DownloadButton (sym_inbox @ '' Download Fault Report'') (dict_get (report_text s) [])
           (''fault_report_'' @ now_file inp @ ''.txt'') ''text/plain'']
      else [])"

definition sidebar :: "'i inputs \<Rightarrow> session \<Rightarrow> widget list" where
  "sidebar inp s =
     [Header (sym_info @ '' About''),
      Markdown (''\<newline>    This system detects common solar panel faults:''
        @ ''\<newline>    - Microcracks\<newline>    - Hot Spots\<newline>    - Snail Trails''
        @ ''\<newline>    - Cell Breakage\<newline>    - Delamination\<newline>    - Bypass Diode Failure''
        @ ''\<newline>    - PID (Potential Induced Degradation)\<newline>    ''),
      Markdown ''---'',
      Header (sym_pin @ '' Service Office Locator''),
      Markdown (''\<newline>    Enter your pincode to:\<newline>    - Find nearest service office''
        @ ''\<newline>    - Get contact information\<newline>    - Send fault report directly\<newline>    ''),
      Markdown ''---'',
      Markdown ''**Note:** This is a demonstration system. For production use, train with your specific dataset.'']
     @ download_widgets inp s"

definition upload_column :: "'i inputs \<Rightarrow> widget list" where
  "upload_column inp =
     FileUploader ''Upload Solar Panel EL Image''
     # (case uploaded_image inp of Some img \<Rightarrow> [Image ''Uploaded EL Image''] | None \<Rightarrow> [])"

subsection \<open>One run of the script, and a session of runs\<close>

text \<open>
  A run shows the page from top to bottom, the sidebar with the session as the run found
  it, and returns the session as the run leaves it.
\<close>

definition run :: "'i env \<Rightarrow> session \<Rightarrow> 'i inputs \<Rightarrow> widget list \<times> session" where
  "run env s inp =
     (let (ws, s') = result_column env inp s
      in (page_head @ sidebar inp s @ upload_column inp @ ws, s'))"

text \<open>Streamlit runs the script again at every interaction, handing the session on.\<close>

fun session_after :: "'i env \<Rightarrow> session \<Rightarrow> 'i inputs list \<Rightarrow> session" where
  "session_after env s [] = s"
| "session_after env s (inp # inps) = session_after env (snd (run env s inp)) inps"


section \<open>The imported modules, from the specification\<close>

subsection \<open>The classifier wrapper\<close>

text \<open>
  Scanning a list from the left for its greatest element: \<open>argmax_from xs i b v\<close> is given
  the rest \<open>xs\<close> of the list, the index \<open>i\<close> of its head, and the best index \<open>b\<close> and
  value \<open>v\<close> so far. Only a strictly greater element replaces the best one, so the first of
  several equal maxima is kept.
\<close>

fun argmax_from :: "pyfloat list \<Rightarrow> nat \<Rightarrow> nat \<Rightarrow> pyfloat \<Rightarrow> nat" where
  "argmax_from [] i b v = b"
| "argmax_from (x # xs) i b v =
     (if v < x then argmax_from xs (Suc i) i x else argmax_from xs (Suc i) b v)"

definition argmax :: "pyfloat list \<Rightarrow> nat" where
  "argmax xs = (case xs of [] \<Rightarrow> 0 | x # rest \<Rightarrow> argmax_from rest 1 0 x)"

text \<open>
  Modelled from the spec: \<open>predict\<close> of the module \<open>src/predict.py\<close>, which is missing from
  the sources. The specification (4.1) says that it turns the raw outputs of the network into a
  probability distribution over the fixed label set, and that the predicted label is the
  argmax of the distribution, ties broken by first-declared label order. The forward pass and
  the softmax are floating-point computations; their result for an image is the parameter
  \<open>distribution\<close>, one probability for each label of \<open>class_names\<close>, in the declared order.
\<close>

definition predict_spec :: "string list \<Rightarrow> ('i \<Rightarrow> pyfloat list) \<Rightarrow> 'i \<Rightarrow> prediction" where
  "predict_spec class_names distribution img =
     (let probs = distribution img; k = argmax probs
      in \<lparr>fault_type = class_names ! k, confidence = probs ! k,
          probabilities = zip class_names probs\<rparr>)"

subsection \<open>The office directory\<close>

definition is_space :: "char \<Rightarrow> bool" where
  "is_space c \<longleftrightarrow> c \<in> set [CHR '' '', CHR 0x09, CHR 0x0A, CHR 0x0B, CHR 0x0C, CHR 0x0D]"

definition strip :: "string \<Rightarrow> string" where
  "strip s = rev (dropWhile is_space (rev (dropWhile is_space s)))"

definition upper_char :: "char \<Rightarrow> char" where
  "upper_char c =
     (if (97::nat) \<le> of_char c \<and> (of_char c :: nat) \<le> 122 then char_of ((of_char c :: nat) - 32) else c)"

text \<open>
  Modelled from the spec: the normalisation of a postal code in \<open>find_nearest_office\<close>
  (module \<open>src/office_locator.py\<close>, missing from the sources), "trim, case" in the
  specification (4.3): surrounding white space is removed and ASCII letters are folded to
  upper case. Digits are left as they are.
\<close>

definition normalize_code :: "string \<Rightarrow> string" where
  "normalize_code code = map upper_char (strip code)"

text \<open>
  The entry of the table with the longest key that is a prefix of the code; of two entries
  with the same key the earlier one.
\<close>

fun longest_prefix_match :: "(string \<times> office) list \<Rightarrow> string \<Rightarrow> (string \<times> office) option" where
  "longest_prefix_match [] code = None"
| "longest_prefix_match ((p, off) # table) code =
     (case longest_prefix_match table code of
        None \<Rightarrow> if prefix p code then Some (p, off) else None
      | Some (q, off') \<Rightarrow>
          if prefix p code \<and> length q \<le> length p then Some (p, off) else Some (q, off'))"

text \<open>
  Modelled from the spec: \<open>find_nearest_office\<close> of the module \<open>src/office_locator.py\<close>,
  which is missing from the sources together with its office table. The specification (4.3)
  says that it normalises the code and matches it against a static table of office records
  keyed by postal-code prefixes, selecting the longest matching prefix, and that it returns
  absent when no prefix matches. The table is the parameter \<open>table\<close>.
\<close>

definition find_nearest_office_spec :: "(string \<times> office) list \<Rightarrow> string \<Rightarrow> office option" where
  "find_nearest_office_spec table code =
     map_option snd (longest_prefix_match table (normalize_code code))"

section \<open>A sample installation\<close>

text \<open>
  A small environment on which the model can be run: images are stood for by the
  distribution the network gives them, the directory has two offices, the knowledge base
  two entries, and floats are multiplied as binary64 numbers.
\<close>

definition sample_class_names :: "string list" where
  "sample_class_names =
     [''Healthy Panel'', ''Microcracks'', ''Hot Spots'', ''Snail Trails'', ''Cell Breakage'',
      ''Delamination'', ''Bypass Diode Failure'', ''PID'']"

definition delhi_office :: office where
  "delhi_office =
     \<lparr>office_name = ''Delhi Service Centre'', email = ''delhi@solar.example'',
      phone = ''+91-11-5550 1000'', address = ''12 Ring Road, New Delhi'',
      working_hours = ''Mon-Sat 9:00-18:00''\<rparr>"

definition mumbai_office :: office where
  "mumbai_office =
     \<lparr>office_name = ''Mumbai Service Centre'', email = ''mumbai@solar.example'',
      phone = ''+91-22-5550 2000'', address = ''7 Marine Drive, Mumbai'',
      working_hours = ''Mon-Sat 9:00-18:00''\<rparr>"

definition sample_table :: "(string \<times> office) list" where
  "sample_table = [(''110'', delhi_office), (''400'', mumbai_office)]"

definition sample_fault_info :: "string \<Rightarrow> fault_info" where
  "sample_fault_info label =
     (if label = ''Hot Spots'' then
        \<lparr>severity = Some ''High'', description = Some ''Localized overheating of cells.'',
         symptoms = Some [''Dark patches''], repair_steps = Some [''Isolate the panel'', ''Replace the cell''],
         prevention = Some [''Keep the panel clean''], cost_estimate = Some ''Rs. 2000''\<rparr>
      else if label = ''Healthy Panel'' then
        \<lparr>severity = None, description = Some ''No fault detected.'', symptoms = None,
         repair_steps = Some [], prevention = Some [''Inspect yearly''], cost_estimate = None\<rparr>
      else
        \<lparr>severity = None, description = None, symptoms = None, repair_steps = None,
         prevention = None, cost_estimate = None\<rparr>)"

definition sample_contact_info :: "office \<Rightarrow> string" where
  "sample_contact_info off =
     office_name off @ ''\<newline>'' @ address off @ ''\<newline>'' @ phone off @ ''\<newline>'' @ email off
     @ ''\<newline>'' @ working_hours off"

definition sample_env :: "(pyfloat list) env" where
  "sample_env =
     \<lparr>predict = predict_spec sample_class_names (\<lambda>img. img),
      get_fault_info = sample_fault_info,
      find_nearest_office = find_nearest_office_spec sample_table,
      format_contact_info = sample_contact_info,
      fmul = float_mul\<rparr>"

text \<open>Two images that the sample classifier labels "Hot Spots" and one that it labels healthy.\<close>

definition hot_image :: "pyfloat list" where
  "hot_image = [1/16, 1/16, 5/8, 1/16, 1/16, 1/16, 1/32, 1/32]"

definition hot_image' :: "pyfloat list" where
  "hot_image' = [1/32, 1/32, 7/8, 1/64, 1/64, 1/64, 1/128, 1/128]"

definition healthy_image :: "pyfloat list" where
  "healthy_image = [3/4, 1/16, 1/16, 1/32, 1/32, 1/32, 1/64, 1/64]"

definition sample_inputs :: "(pyfloat list) inputs" where
  "sample_inputs =
     \<lparr>uploaded_image = Some hot_image, user_pincode = ''110001'', find_office_btn = False,
      user_name = ''Asha'', user_phone = ''98100 00000'', user_email = ''asha@mail.example'',
      panel_location = ''Roof'', additional_notes = ''None'', submitted = True,
      now_file = ''20240102_030405'', now_report = ''2024-01-02 03:04:05''\<rparr>"


section \<open>Observations on what a run shows\<close>

text \<open>The elements that carry an assembled report: its structured form and its text.\<close>

fun is_report_widget :: "widget \<Rightarrow> bool" where
  "is_report_widget (Json r) = True"
| "is_report_widget (Code t) = True"
| "is_report_widget w = False"

text \<open>The elements of the report form.\<close>

fun is_form_widget :: "widget \<Rightarrow> bool" where
  "is_form_widget (Form key) = True"
| "is_form_widget (FormSubmitButton label) = True"
| "is_form_widget (TextArea label) = True"
| "is_form_widget w = False"

fun is_download :: "widget \<Rightarrow> bool" where
  "is_download (DownloadButton label content file_name mime) = True"
| "is_download w = False"

text \<open>The colour of a status element: green, red, yellow or blue.\<close>

datatype colour = Green | Red | Yellow | Blue

fun widget_colour :: "widget \<Rightarrow> colour option" where
  "widget_colour (Success t) = Some Green"
| "widget_colour (Error t) = Some Red"
| "widget_colour (Warning t) = Some Yellow"
| "widget_colour (Info t) = Some Blue"
| "widget_colour w = None"

fun widget_text :: "widget \<Rightarrow> string" where
  "widget_text (Success t) = t"
| "widget_text (Error t) = t"
| "widget_text (Warning t) = t"
| "widget_text (Info t) = t"
| "widget_text (Markdown t) = t"
| "widget_text (Write t) = t"
| "widget_text (Code t) = t"
| "widget_text w = []"

text \<open>The texts written with \<open>st.write\<close>, in order; line 98 is the only such call.\<close>

fun write_texts :: "widget list \<Rightarrow> string list" where
  "write_texts [] = []"
| "write_texts (Write t # ws) = t # write_texts ws"
| "write_texts (w # ws) = write_texts ws"

text \<open>
  A numeral with one decimal place: an optional minus sign, at least one digit, a point and
  one digit.
\<close>

definition is_digit :: "char \<Rightarrow> bool" where
  "is_digit c \<longleftrightarrow> c \<in> set ''0123456789''"

definition one_decimal_place :: "string \<Rightarrow> bool" where
  "one_decimal_place t =
     (case rev t of
        d # p # body \<Rightarrow>
          (let ds = (if rev body \<noteq> [] \<and> hd (rev body) = CHR ''-'' then tl (rev body) else rev body)
           in is_digit d \<and> p = CHR ''.'' \<and> ds \<noteq> [] \<and> list_all is_digit ds)
      | _ \<Rightarrow> False)"

text \<open>
  The report a run assembles, if it assembles one: the conditions under which the script
  reaches lines 194 to 299, and the two values it builds there.
\<close>

definition assembled :: "'i env \<Rightarrow> 'i inputs \<Rightarrow> (report \<times> string) option" where
  "assembled env inp =
     (case uploaded_image inp of
        None \<Rightarrow> None
      | Some img \<Rightarrow>
          (let result = predict env img;
               ft = fault_type result;
               c = confidence result;
               fi = get_fault_info env ft
           in if lookup_requested inp \<and> user_pincode inp \<noteq> [] then
                (case find_nearest_office env (user_pincode inp) of
                   None \<Rightarrow> None
                 | Some off \<Rightarrow>
                     if ft \<noteq> ''Healthy Panel'' \<and> submitted inp \<and> required_fields inp
                     then Some (make_report env inp ft c fi off, make_report_text env inp ft c fi off)
                     else None)
              else None))"

text \<open>Lines 298 and 299 on the session.\<close>

definition store_report :: "(report \<times> string) option \<Rightarrow> session \<Rightarrow> session" where
  "store_report a s =
     (case a of None \<Rightarrow> s | Some (r, t) \<Rightarrow> s\<lparr>fault_report := Some r, report_text := Some t\<rparr>)"

text \<open>The report assembled by the latest run of a sequence of runs that assembled one.\<close>

fun latest_assembled :: "'i env \<Rightarrow> 'i inputs list \<Rightarrow> (report \<times> string) option" where
  "latest_assembled env [] = None"
| "latest_assembled env (inp # inps) =
     (case latest_assembled env inps of
        Some a \<Rightarrow> Some a
      | None \<Rightarrow> assembled env inp)"


text \<open>
  What a run with an uploaded image shows above the office section (lines 16 to 153): the
  page head, the sidebar, the upload column, the detection result and the pincode field.
\<close>

definition shown_before_office :: "'i env \<Rightarrow> 'i inputs \<Rightarrow> session \<Rightarrow> 'i \<Rightarrow> widget list" where
  "shown_before_office env inp s img =
     page_head @ sidebar inp s @ upload_column inp
     @ result_widgets env (predict env img) (get_fault_info env (fault_type (predict env img)))
     @ pincode_widgets"

section \<open>The structure of a run\<close>

lemma repair_lines_markdown: "w \<in> set (repair_lines i steps) \<Longrightarrow> \<exists>t. w = Markdown t"
  by (induction steps arbitrary: i) auto

lemma probability_bars_progress: "w \<in> set (probability_bars env ps) \<Longrightarrow> \<exists>p t. w = Progress p t"
  by (auto simp: probability_bars_def)

lemma result_widgets_plain:
  assumes "w \<in> set (result_widgets env result fi)"
  shows "\<not> is_report_widget w \<and> \<not> is_form_widget w \<and> \<not> is_download w"
  using assms
  by (auto simp: result_widgets_def result_banner_def split: option.splits if_splits
      dest!: repair_lines_markdown probability_bars_progress)

lemma pincode_widgets_plain:
  "w \<in> set pincode_widgets \<Longrightarrow> \<not> is_report_widget w \<and> \<not> is_form_widget w \<and> \<not> is_download w"
  by (auto simp: pincode_widgets_def)

lemma page_head_plain:
  "w \<in> set page_head \<Longrightarrow> \<not> is_report_widget w \<and> \<not> is_form_widget w \<and> \<not> is_download w"
  by (auto simp: page_head_def)

lemma upload_column_plain:
  "w \<in> set (upload_column inp) \<Longrightarrow> \<not> is_report_widget w \<and> \<not> is_form_widget w \<and> \<not> is_download w"
  by (auto simp: upload_column_def split: option.splits)

lemma sidebar_plain:
  "w \<in> set (sidebar inp s) \<Longrightarrow> \<not> is_report_widget w \<and> \<not> is_form_widget w"
  by (auto simp: sidebar_def download_widgets_def split: if_splits)

lemma run_unfold:
  "run env s inp =
     (page_head @ sidebar inp s @ upload_column inp @ fst (result_column env inp s),
      snd (result_column env inp s))"
  by (simp add: run_def split: prod.split)

lemma result_column_unfold:
  "uploaded_image inp = Some img \<Longrightarrow>
   result_column env inp s =
     (result_widgets env (predict env img) (get_fault_info env (fault_type (predict env img)))
        @ pincode_widgets
        @ fst (office_section env inp (fault_type (predict env img)) (confidence (predict env img))
                 (get_fault_info env (fault_type (predict env img))) s),
      snd (office_section env inp (fault_type (predict env img)) (confidence (predict env img))
             (get_fault_info env (fault_type (predict env img))) s))"
  by (simp add: result_column_def Let_def split: prod.split)



lemma run_session: "snd (run env s inp) = store_report (assembled env inp) s"
  by (auto simp: run_unfold result_column_def office_section_def report_form_def form_submission_def
      assembled_def store_report_def Let_def split: option.splits prod.splits if_splits)




lemma result_column_no_download:
  assumes "w \<in> set (fst (result_column env inp s))"
  shows "\<not> is_download w"
  using assms result_widgets_plain [of w env] pincode_widgets_plain [of w]
  by (auto simp: result_column_def office_section_def report_form_def form_submission_def
      form_fields_def report_widgets_def Let_def
      split: option.splits prod.splits if_splits)

lemma run_downloads:
  "filter is_download (fst (run env s inp)) =
     (if fault_report s \<noteq> None
      then [DownloadButton (sym_inbox @ '' Download Fault Report'') (dict_get (report_text s) [])
              (''fault_report_'' @ now_file inp @ ''.txt'') ''text/plain'']
      else [])"
proof -
  have "filter is_download (fst (result_column env inp s)) = []"
    using result_column_no_download [of _ env inp s] by (simp add: filter_empty_conv)
  moreover have "filter is_download page_head = []"
    by (simp add: page_head_def)
  moreover have "filter is_download (upload_column inp) = []"
    by (simp add: upload_column_def split: option.splits)
  ultimately show ?thesis
    by (simp add: run_unfold sidebar_def download_widgets_def)
qed

lemma store_report_twice:
  "store_report (case b of Some x \<Rightarrow> Some x | None \<Rightarrow> a) s = store_report b (store_report a s)"
  by (cases b; cases a) (auto simp: store_report_def)

lemma session_after_latest:
  "session_after env s inps = store_report (latest_assembled env inps) s"
proof (induction inps arbitrary: s)
  case Nil
  show ?case by (simp add: store_report_def)
next
  case (Cons inp inps)
  show ?case
    by (simp add: Cons.IH run_session store_report_twice)
qed

lemma session_of_latest:
  "fault_report (session_after env empty_session inps) = map_option fst (latest_assembled env inps)"
  "report_text (session_after env empty_session inps) = map_option snd (latest_assembled env inps)"
  by (auto simp: session_after_latest store_report_def empty_session_def split: option.splits)

lemma assembled_shown:
  assumes "assembled env inp = Some (r, t)"
  shows "Json r \<in> set (fst (run env s inp)) \<and> Code t \<in> set (fst (run env s inp))"
  using assms
  by (auto simp: assembled_def run_unfold result_column_def office_section_def report_form_def
      form_submission_def report_widgets_def Let_def split: option.splits prod.splits if_splits)



lemma assembled_found:
  assumes "uploaded_image inp = Some img"
    and "lookup_requested inp" and "user_pincode inp \<noteq> []"
    and "find_nearest_office env (user_pincode inp) = Some off"
    and "fault_type (predict env img) \<noteq> ''Healthy Panel''"
    and "submitted inp" and "required_fields inp"
  shows "assembled env inp =
           Some (make_report env inp (fault_type (predict env img)) (confidence (predict env img))
                   (get_fault_info env (fault_type (predict env img))) off,
                 make_report_text env inp (fault_type (predict env img)) (confidence (predict env img))
                   (get_fault_info env (fault_type (predict env img))) off)"
  using assms by (simp add: assembled_def Let_def)



lemma run_with_image:
  assumes "uploaded_image inp = Some img"
  shows "fst (run env s inp) =
           shown_before_office env inp s img
           @ fst (office_section env inp (fault_type (predict env img)) (confidence (predict env img))
                    (get_fault_info env (fault_type (predict env img))) s)"
    and "snd (run env s inp) =
           snd (office_section env inp (fault_type (predict env img)) (confidence (predict env img))
                  (get_fault_info env (fault_type (predict env img))) s)"
  using assms by (simp_all add: run_unfold result_column_unfold shown_before_office_def)

lemma run_without_image:
  assumes "uploaded_image inp = None"
  shows "run env s inp =
           (page_head @ sidebar inp s @ upload_column inp
            @ [Info (sym_up @ '' Please upload an EL image to begin analysis.'')], s)"
  using assms by (simp add: run_unfold result_column_def)

lemma shown_before_office_plain:
  assumes "w \<in> set (shown_before_office env inp s img)"
  shows "\<not> is_report_widget w \<and> \<not> is_form_widget w"
  using assms page_head_plain [of w] sidebar_plain [of w inp s] upload_column_plain [of w inp]
    result_widgets_plain [of w env] pincode_widgets_plain [of w]
  by (auto simp: shown_before_office_def)




lemma report_form_healthy: "report_form env inp ''Healthy Panel'' c fi off s = ([], s)"
  by (simp add: report_form_def)

lemma office_section_healthy:
  "office_section env inp ''Healthy Panel'' c fi s =
     ((if lookup_requested inp then
         if user_pincode inp \<noteq> [] then
           (case find_nearest_office env (user_pincode inp) of
              Some off \<Rightarrow> [Markdown ''---'',
                           Markdown (''### '' @ sym_building @ '' Nearest Service Office''),
                           Markdown (format_contact_info env off)]
            | None \<Rightarrow> [Warning ''No service office found for this pincode. Please contact our main office.''])
         else [Info ''Please enter a pincode to find the nearest service office.'']
       else []), s)"
  by (simp add: office_section_def report_form_healthy split: option.splits)

section \<open>Report assembly\<close>




section \<open>Healthy panels and unmatched pincodes\<close>

text \<open>
  Claim C9. A prediction of "Healthy Panel" never produces a fault report. A run whose
  uploaded image is labelled "Healthy Panel" shows no element of the report form and no
  report and leaves the session as it found it; below the pincode field it shows at most the
  office heading with the contact information of the office, the no-office warning or the
  pincode prompt, and nothing of lines 167 to 301 (form, report assembly, contact links).
  Conversely, a run that shows an element of the form or a report, or that changes the
  session, has an uploaded image whose predicted label is not "Healthy Panel".
\<close>

theorem healthy_panel_no_report:
  "(uploaded_image inp = Some img \<and> fault_type (predict env img) = ''Healthy Panel'' \<longrightarrow>
      (\<forall>w \<in> set (fst (run env s inp)). \<not> is_form_widget w \<and> \<not> is_report_widget w)
      \<and> snd (run env s inp) = s
      \<and> fst (run env s inp) =
          shown_before_office env inp s img
          @ (if lookup_requested inp then
               if user_pincode inp \<noteq> [] then
                 (case find_nearest_office env (user_pincode inp) of
                    Some off \<Rightarrow> [Markdown ''---'',
                                 Markdown (''### '' @ sym_building @ '' Nearest Service Office''),
                                 Markdown (format_contact_info env off)]
                  | None \<Rightarrow> [Warning ''No service office found for this pincode. Please contact our main office.''])
               else [Info ''Please enter a pincode to find the nearest service office.'']
             else []))
   \<and> ((\<exists>w \<in> set (fst (run env s inp)). is_form_widget w \<or> is_report_widget w)
        \<or> snd (run env s inp) \<noteq> s \<longrightarrow>
       (\<exists>img'. uploaded_image inp = Some img' \<and> fault_type (predict env img') \<noteq> ''Healthy Panel''))"
proof -
  have healthy: "(\<forall>w \<in> set (fst (run env s inp)). \<not> is_form_widget w \<and> \<not> is_report_widget w)
      \<and> snd (run env s inp) = s
      \<and> fst (run env s inp) =
          shown_before_office env inp s i
          @ (if lookup_requested inp then
               if user_pincode inp \<noteq> [] then
                 (case find_nearest_office env (user_pincode inp) of
                    Some off \<Rightarrow> [Markdown ''---'',
                                 Markdown (''### '' @ sym_building @ '' Nearest Service Office''),
                                 Markdown (format_contact_info env off)]
                  | None \<Rightarrow> [Warning ''No service office found for this pincode. Please contact our main office.''])
               else [Info ''Please enter a pincode to find the nearest service office.'']
             else [])"
    if up: "uploaded_image inp = Some i" and lab: "fault_type (predict env i) = ''Healthy Panel''" for i
  proof -
    let ?office = "(if lookup_requested inp then
               if user_pincode inp \<noteq> [] then
                 (case find_nearest_office env (user_pincode inp) of
                    Some off \<Rightarrow> [Markdown ''---'',
                                 Markdown (''### '' @ sym_building @ '' Nearest Service Office''),
                                 Markdown (format_contact_info env off)]
                  | None \<Rightarrow> [Warning ''No service office found for this pincode. Please contact our main office.''])
               else [Info ''Please enter a pincode to find the nearest service office.'']
             else [])"
    have eq: "fst (run env s inp) = shown_before_office env inp s i @ ?office"
      and ses: "snd (run env s inp) = s"
      by (simp_all add: run_with_image [OF up] lab office_section_healthy)
    have "\<not> is_form_widget w \<and> \<not> is_report_widget w" if "w \<in> set ?office" for w
      using that by (auto split: if_splits option.splits)
    then have "\<not> is_form_widget w \<and> \<not> is_report_widget w" if "w \<in> set (fst (run env s inp))" for w
      using that shown_before_office_plain [of w env inp s i] unfolding eq by auto
    with eq ses show ?thesis by blast
  qed
  have none: "(\<forall>w \<in> set (fst (run env s inp)). \<not> is_form_widget w \<and> \<not> is_report_widget w)
      \<and> snd (run env s inp) = s"
    if "uploaded_image inp = None"
    using page_head_plain sidebar_plain [of _ inp s] upload_column_plain [of _ inp]
    by (auto simp: run_without_image [OF that])
  have only: "\<exists>img'. uploaded_image inp = Some img' \<and> fault_type (predict env img') \<noteq> ''Healthy Panel''"
    if "(\<exists>w \<in> set (fst (run env s inp)). is_form_widget w \<or> is_report_widget w)
        \<or> snd (run env s inp) \<noteq> s"
  proof (cases "uploaded_image inp")
    case None
    from none [OF this] that show ?thesis by blast
  next
    case (Some i)
    show ?thesis
    proof (cases "fault_type (predict env i) = ''Healthy Panel''")
      case True
      from healthy [OF Some True] that show ?thesis by blast
    next
      case False
      with Some show ?thesis by blast
    qed
  qed
  from healthy [of img] only show ?thesis by blast
qed

theorem healthy_panel_no_report_witness:
  "uploaded_image (sample_inputs\<lparr>uploaded_image := Some healthy_image\<rparr>) = Some healthy_image
   \<and> fault_type (predict sample_env healthy_image) = ''Healthy Panel''
   \<and> filter is_form_widget
        (fst (run sample_env empty_session (sample_inputs\<lparr>uploaded_image := Some healthy_image\<rparr>))) = []
   \<and> filter is_report_widget
        (fst (run sample_env empty_session (sample_inputs\<lparr>uploaded_image := Some healthy_image\<rparr>))) = []
   \<and> snd (run sample_env empty_session (sample_inputs\<lparr>uploaded_image := Some healthy_image\<rparr>))
       = empty_session"
proof -
  let ?inp = "sample_inputs\<lparr>uploaded_image := Some healthy_image\<rparr>"
  have h1: "uploaded_image ?inp = Some healthy_image" by simp
  have h2: "fault_type (predict sample_env healthy_image) = ''Healthy Panel''" by code_simp
  from healthy_panel_no_report [of ?inp healthy_image sample_env empty_session] h1 h2
  have "(\<forall>w \<in> set (fst (run sample_env empty_session ?inp)). \<not> is_form_widget w \<and> \<not> is_report_widget w)
      \<and> snd (run sample_env empty_session ?inp) = empty_session"
    by blast
  with h1 h2 show ?thesis by (simp only: filter_empty_conv) blast
qed



section \<open>The download of the report\<close>

lemma sample_report:
  "assembled sample_env sample_inputs
     = Some (make_report sample_env sample_inputs ''Hot Spots'' (5 / 8)
               (sample_fault_info ''Hot Spots'') delhi_office,
             make_report_text sample_env sample_inputs ''Hot Spots'' (5 / 8)
               (sample_fault_info ''Hot Spots'') delhi_office)"
proof -
  have h1: "uploaded_image sample_inputs = Some hot_image" by (simp add: sample_inputs_def)
  have h2: "lookup_requested sample_inputs" by code_simp
  have h3: "user_pincode sample_inputs \<noteq> []" by (simp add: sample_inputs_def)
  have h4: "find_nearest_office sample_env (user_pincode sample_inputs) = Some delhi_office"
    by code_simp
  have h5: "fault_type (predict sample_env hot_image) \<noteq> ''Healthy Panel''" by code_simp
  have h6: "submitted sample_inputs" by (simp add: sample_inputs_def)
  have h7: "required_fields sample_inputs" by (simp add: required_fields_def sample_inputs_def)
  have ft: "fault_type (predict sample_env hot_image) = ''Hot Spots''" by code_simp
  have cf: "confidence (predict sample_env hot_image) = 5 / 8" by code_simp
  have fi: "get_fault_info sample_env = sample_fault_info" by (simp add: sample_env_def)
  from assembled_found [OF h1 h2 h3 h4 h5 h6 h7] show ?thesis
    by (simp add: ft cf fi)
qed

text \<open>
  Claim C10, as amended. In a session that starts empty, a run offers the download button
  exactly when the session holds a report at the start of the run, that is when an earlier
  run of the session has assembled one; the content offered is the text stored for the
  report that the earlier runs assembled most recently. A report that the run itself
  assembles is stored in the session by lines 298 and 299, after the sidebar has been shown,
  and is offered from the next run on.
\<close>

theorem download_offers_latest_report:
  "let s = session_after env empty_session inps; ws = fst (run env s inp)
   in (filter is_download ws \<noteq> [] \<longleftrightarrow> fault_report s \<noteq> None)
      \<and> (fault_report s \<noteq> None \<longleftrightarrow> latest_assembled env inps \<noteq> None)
      \<and> (\<forall>label content file_name mime.
            DownloadButton label content file_name mime \<in> set ws \<longrightarrow>
            (\<exists>r. latest_assembled env inps = Some (r, content)))
      \<and> (\<forall>r t. latest_assembled env inps = Some (r, t) \<longrightarrow>
            filter is_download ws
              = [DownloadButton (sym_inbox @ '' Download Fault Report'') t
                   (''fault_report_'' @ now_file inp @ ''.txt'') ''text/plain''])
      \<and> snd (run env s inp) = store_report (assembled env inp) s"
proof -
  let ?s = "session_after env empty_session inps"
  let ?ws = "fst (run env ?s inp)"
  have a: "filter is_download ?ws \<noteq> [] \<longleftrightarrow> fault_report ?s \<noteq> None"
    by (simp add: run_downloads)
  have b: "fault_report ?s \<noteq> None \<longleftrightarrow> latest_assembled env inps \<noteq> None"
    by (simp add: session_of_latest)
  have c: "\<exists>r. latest_assembled env inps = Some (r, content)"
    if "DownloadButton label content file_name mime \<in> set ?ws" for label content file_name mime
  proof -
    from that have "DownloadButton label content file_name mime \<in> set (filter is_download ?ws)"
      by simp
    then have "fault_report ?s \<noteq> None" and "content = dict_get (report_text ?s) []"
      by (auto simp: run_downloads split: if_splits)
    then show ?thesis
      by (cases "latest_assembled env inps") (auto simp: session_of_latest dict_get_def)
  qed
  have d: "filter is_download ?ws
              = [DownloadButton (sym_inbox @ '' Download Fault Report'') t
                   (''fault_report_'' @ now_file inp @ ''.txt'') ''text/plain'']"
    if "latest_assembled env inps = Some (r, t)" for r t
    using that by (simp add: run_downloads session_of_latest dict_get_def)
  from a b c d run_session [of env ?s inp] show ?thesis unfolding Let_def by blast
qed

theorem download_offers_latest_report_witness:
  "latest_assembled sample_env [sample_inputs]
     = Some (make_report sample_env sample_inputs ''Hot Spots'' (5 / 8)
               (sample_fault_info ''Hot Spots'') delhi_office,
             make_report_text sample_env sample_inputs ''Hot Spots'' (5 / 8)
               (sample_fault_info ''Hot Spots'') delhi_office)
   \<and> filter is_download
        (fst (run sample_env (session_after sample_env empty_session [sample_inputs])
               (sample_inputs\<lparr>submitted := False\<rparr>)))
       = [DownloadButton (sym_inbox @ '' Download Fault Report'')
            (make_report_text sample_env sample_inputs ''Hot Spots'' (5 / 8)
               (sample_fault_info ''Hot Spots'') delhi_office)
            ''fault_report_20240102_030405.txt'' ''text/plain'']"
proof -
  have h: "latest_assembled sample_env [sample_inputs]
     = Some (make_report sample_env sample_inputs ''Hot Spots'' (5 / 8)
               (sample_fault_info ''Hot Spots'') delhi_office,
             make_report_text sample_env sample_inputs ''Hot Spots'' (5 / 8)
               (sample_fault_info ''Hot Spots'') delhi_office)"
    by (simp add: sample_report)
  from download_offers_latest_report [of sample_env "[sample_inputs]" "sample_inputs\<lparr>submitted := False\<rparr>"] h
  show ?thesis by (simp add: Let_def sample_inputs_def)
qed

theorem download_is_stale_counterexample:
  "filter is_download
     (fst (run sample_env (session_after sample_env empty_session [sample_inputs])
            (sample_inputs\<lparr>user_name := ''Ravi''\<rparr>)))
     = [DownloadButton (sym_inbox @ '' Download Fault Report'')
          (make_report_text sample_env sample_inputs ''Hot Spots'' (5 / 8)
             (sample_fault_info ''Hot Spots'') delhi_office)
          ''fault_report_20240102_030405.txt'' ''text/plain'']
   \<and> Code (make_report_text sample_env (sample_inputs\<lparr>user_name := ''Ravi''\<rparr>) ''Hot Spots'' (5 / 8)
             (sample_fault_info ''Hot Spots'') delhi_office)
       \<in> set (fst (run sample_env (session_after sample_env empty_session [sample_inputs])
                    (sample_inputs\<lparr>user_name := ''Ravi''\<rparr>)))
   \<and> report_text (snd (run sample_env (session_after sample_env empty_session [sample_inputs])
                          (sample_inputs\<lparr>user_name := ''Ravi''\<rparr>)))
       = Some (make_report_text sample_env (sample_inputs\<lparr>user_name := ''Ravi''\<rparr>) ''Hot Spots'' (5 / 8)
                 (sample_fault_info ''Hot Spots'') delhi_office)
   \<and> make_report_text sample_env (sample_inputs\<lparr>user_name := ''Ravi''\<rparr>) ''Hot Spots'' (5 / 8)
         (sample_fault_info ''Hot Spots'') delhi_office
       \<noteq> make_report_text sample_env sample_inputs ''Hot Spots'' (5 / 8)
           (sample_fault_info ''Hot Spots'') delhi_office"
proof -
  let ?inp = "sample_inputs\<lparr>user_name := ''Ravi''\<rparr>"
  let ?s = "session_after sample_env empty_session [sample_inputs]"
  let ?a = "make_report_text sample_env sample_inputs ''Hot Spots'' (5 / 8)
              (sample_fault_info ''Hot Spots'') delhi_office"
  let ?b = "make_report_text sample_env ?inp ''Hot Spots'' (5 / 8)
              (sample_fault_info ''Hot Spots'') delhi_office"
  have h1: "uploaded_image ?inp = Some hot_image" by (simp add: sample_inputs_def)
  have h2: "lookup_requested ?inp" by code_simp
  have h3: "user_pincode ?inp \<noteq> []" by (simp add: sample_inputs_def)
  have h4: "find_nearest_office sample_env (user_pincode ?inp) = Some delhi_office" by code_simp
  have h5: "fault_type (predict sample_env hot_image) \<noteq> ''Healthy Panel''" by code_simp
  have h6: "submitted ?inp" by (simp add: sample_inputs_def)
  have h7: "required_fields ?inp" by (simp add: required_fields_def sample_inputs_def)
  have ft: "fault_type (predict sample_env hot_image) = ''Hot Spots''" by code_simp
  have cf: "confidence (predict sample_env hot_image) = 5 / 8" by code_simp
  have fi: "get_fault_info sample_env = sample_fault_info" by (simp add: sample_env_def)
  have second: "assembled sample_env ?inp
      = Some (make_report sample_env ?inp ''Hot Spots'' (5 / 8) (sample_fault_info ''Hot Spots'')
                delhi_office, ?b)"
    using assembled_found [OF h1 h2 h3 h4 h5 h6 h7] by (simp add: ft cf fi)
  have latest: "latest_assembled sample_env [sample_inputs]
      = Some (make_report sample_env sample_inputs ''Hot Spots'' (5 / 8)
                (sample_fault_info ''Hot Spots'') delhi_office, ?a)"
    by (simp add: sample_report)
  have stored: "report_text ?s = Some ?a" and held: "fault_report ?s \<noteq> None"
    unfolding session_of_latest latest by simp_all
  have name: "''fault_report_'' @ now_file ?inp @ ''.txt'' = ''fault_report_20240102_030405.txt''"
    by (simp add: sample_inputs_def)
  have "filter is_download (fst (run sample_env ?s ?inp))
     = [DownloadButton (sym_inbox @ '' Download Fault Report'') ?a
          ''fault_report_20240102_030405.txt'' ''text/plain'']"
    unfolding run_downloads name stored dict_get_def using held by (simp only: not_False_eq_True if_True option.case)
  moreover have "Code ?b \<in> set (fst (run sample_env ?s ?inp))"
    using assembled_shown [OF second] by simp
  moreover have "report_text (snd (run sample_env ?s ?inp)) = Some ?b"
    by (simp add: run_session second store_report_def)
  moreover have "?b \<noteq> ?a"
    by (simp add: make_report_text_def sample_inputs_def)
  ultimately show ?thesis by blast
qed

end
